theory Spec2Isabelle
  imports Complex_Main
begin

section \<open>Python values\<close>

text \<open>
  The activities and the store's responses are decoded JSON, handled by the program as
  Python dictionaries of dynamically typed values. \<open>pyval\<close> is the decoded JSON value.
  A JSON number (Python \<open>int\<close> or \<open>float\<close>) is its exact rational value: floating-point
  rounding is not part of the model. A nested JSON object is an association list; the
  top-level dictionaries the code reads with \<open>.get\<close> are maps.
\<close>

datatype pyval =
    PNone
  | PBool bool
  | PNum rat
  | PStr string
  | PList "pyval list"
  | PDict "(string \<times> pyval) list"

text \<open>The exceptions that the modelled code can meet.\<close>

datatype error =
    TypeError
  | KeyError
  | IndexError
  | AttributeError
  | ZeroDivisionError
  | RequestError

type_synonym pydict = "string \<rightharpoonup> pyval"

text \<open>\<open>d.get(k, default)\<close> and \<open>d.get(k)\<close>.\<close>

definition dict_get :: "pydict \<Rightarrow> string \<Rightarrow> pyval \<Rightarrow> pyval" where
  "dict_get d k dflt = (case d k of None \<Rightarrow> dflt | Some v \<Rightarrow> v)"

definition dict_get_none :: "pydict \<Rightarrow> string \<Rightarrow> pyval" where
  "dict_get_none d k = dict_get d k PNone"

text \<open>Truth value of an object in a condition (\<open>if x:\<close>, \<open>if not x:\<close>).\<close>

fun truthy :: "pyval \<Rightarrow> bool" where
  "truthy PNone = False"
| "truthy (PBool b) = b"
| "truthy (PNum r) = (r \<noteq> 0)"
| "truthy (PStr s) = (s \<noteq> [])"
| "truthy (PList l) = (l \<noteq> [])"
| "truthy (PDict d) = (d \<noteq> [])"

text \<open>The numeric value of an operand; \<open>bool\<close> is a subclass of \<open>int\<close>.\<close>

fun num_of :: "pyval \<Rightarrow> rat option" where
  "num_of (PNum r) = Some r"
| "num_of (PBool b) = Some (if b then 1 else 0)"
| "num_of _ = None"

text \<open>\<open>x / y\<close> (true division).\<close>

definition py_truediv :: "pyval \<Rightarrow> pyval \<Rightarrow> error + pyval" where
  "py_truediv x y =
     (case (num_of x, num_of y) of
        (Some a, Some b) \<Rightarrow> if b = 0 then Inl ZeroDivisionError else Inr (PNum (a / b))
      | _ \<Rightarrow> Inl TypeError)"

text \<open>\<open>x * f\<close> for a \<open>float\<close> literal \<open>f\<close>: only numbers can be multiplied by a float.\<close>

definition py_mul_float :: "pyval \<Rightarrow> rat \<Rightarrow> error + pyval" where
  "py_mul_float x f =
     (case num_of x of Some a \<Rightarrow> Inr (PNum (a * f)) | None \<Rightarrow> Inl TypeError)"

text \<open>\<open>x * n\<close> for an \<open>int\<close> literal \<open>n\<close>: numbers multiply, strings and lists repeat.\<close>

fun py_mul_int :: "pyval \<Rightarrow> int \<Rightarrow> error + pyval" where
  "py_mul_int (PNum r) n = Inr (PNum (r * of_int n))"
| "py_mul_int (PBool b) n = Inr (PNum ((if b then 1 else 0) * of_int n))"
| "py_mul_int (PStr s) n = Inr (PStr (concat (replicate (nat n) s)))"
| "py_mul_int (PList l) n = Inr (PList (concat (replicate (nat n) l)))"
| "py_mul_int PNone n = Inl TypeError"
| "py_mul_int (PDict d) n = Inl TypeError"

text \<open>\<open>x > r\<close> for a numeric literal \<open>r\<close>: ordering an object of another type against a
  number raises.\<close>

definition py_gt :: "pyval \<Rightarrow> rat \<Rightarrow> error + bool" where
  "py_gt x r = (case num_of x of Some a \<Rightarrow> Inr (a > r) | None \<Rightarrow> Inl TypeError)"

text \<open>\<open>len(x)\<close>.\<close>

fun py_len :: "pyval \<Rightarrow> error + nat" where
  "py_len (PStr s) = Inr (length s)"
| "py_len (PList l) = Inr (length l)"
| "py_len (PDict d) = Inr (length d)"
| "py_len _ = Inl TypeError"

text \<open>\<open>'T' in x\<close>.\<close>

fun py_contains_T :: "pyval \<Rightarrow> error + bool" where
  "py_contains_T (PStr s) = Inr (CHR ''T'' \<in> set s)"
| "py_contains_T (PList l) = Inr (PStr ''T'' \<in> set l)"
| "py_contains_T (PDict d) = Inr (''T'' \<in> set (map fst d))"
| "py_contains_T _ = Inl TypeError"

text \<open>\<open>x.split('T')[0]\<close>, called only when \<open>'T' in x\<close> holds: the part of a string before
  its first \<open>T\<close>; other objects have no \<open>split\<close>.\<close>

fun py_split_T_first :: "pyval \<Rightarrow> error + pyval" where
  "py_split_T_first (PStr s) = Inr (PStr (takeWhile (\<lambda>c. c \<noteq> CHR ''T'') s))"
| "py_split_T_first _ = Inl AttributeError"

text \<open>\<open>x[0]\<close>: the first element of a list, the first character of a string; a
  dictionary decoded from JSON has only string keys, so the key \<open>0\<close> is missing.\<close>

fun py_index0 :: "pyval \<Rightarrow> error + pyval" where
  "py_index0 (PList (x # xs)) = Inr x"
| "py_index0 (PList []) = Inl IndexError"
| "py_index0 (PStr (c # cs)) = Inr (PStr [c])"
| "py_index0 (PStr []) = Inl IndexError"
| "py_index0 (PDict d) = Inl KeyError"
| "py_index0 _ = Inl TypeError"

text \<open>\<open>x['id']\<close>.\<close>

fun py_getitem_id :: "pyval \<Rightarrow> error + pyval" where
  "py_getitem_id (PDict d) = (case map_of d ''id'' of None \<Rightarrow> Inl KeyError | Some v \<Rightarrow> Inr v)"
| "py_getitem_id _ = Inl TypeError"

section \<open>Sport classification (sync.py)\<close>

definition SPORT_TYPE_MAP :: "(string \<times> string) list" where
  "SPORT_TYPE_MAP =
     [(''Run'', ''Run''),
      (''TrailRun'', ''Run''),
      (''VirtualRun'', ''Run''),
      (''Ride'', ''Ride''),
      (''VirtualRide'', ''Ride''),
      (''MountainBikeRide'', ''Ride''),
      (''GravelRide'', ''Ride''),
      (''EBikeRide'', ''Ride''),
      (''Swim'', ''Swim''),
      (''OpenWaterSwim'', ''Swim'')]"

text \<open>\<open>SPORT_TYPE_MAP.get(key, 'Other')\<close>: a list or a dictionary is not hashable and
  raises; every other key that is not one of the table's strings gives the default.\<close>

fun sport_type_map_get :: "pyval \<Rightarrow> error + string" where
  "sport_type_map_get (PStr s) =
     Inr (case map_of SPORT_TYPE_MAP s of None \<Rightarrow> ''Other'' | Some c \<Rightarrow> c)"
| "sport_type_map_get (PList l) = Inl TypeError"
| "sport_type_map_get (PDict d) = Inl TypeError"
| "sport_type_map_get _ = Inr ''Other''"

definition get_sport_type :: "pydict \<Rightarrow> error + string" where
  "get_sport_type activity =
     (let strava_type = dict_get activity ''type'' (PStr '''');
          sport_type = dict_get activity ''sport_type'' strava_type
      in sport_type_map_get sport_type)"

section \<open>The store collaborator\<close>

text \<open>
  A property of a page, as the code writes it into the \<open>properties\<close> dictionary:
  \<open>{"title": [{"text": {"content": v}}]}\<close>, \<open>{"number": v}\<close>, \<open>{"select": {"name": s}}\<close>,
  \<open>{"date": {"start": v}}\<close>, \<open>{"relation": [{"id": v}]}\<close> and \<open>{"status": {"name": s}}\<close>.
  The \<open>properties\<close> dictionary keeps insertion order: an association list.
\<close>

datatype notion_prop =
    Title pyval
  | Number pyval
  | Select string
  | DateStart pyval
  | Relation pyval
  | Status string

type_synonym properties = "(string \<times> notion_prop) list"

text \<open>\<open>properties[k] = v\<close>.\<close>

fun dict_set :: "properties \<Rightarrow> string \<Rightarrow> notion_prop \<Rightarrow> properties" where
  "dict_set [] k v = [(k, v)]"
| "dict_set ((k', v') # ps) k v = (if k' = k then (k, v) # ps else (k', v') # dict_set ps k v)"

text \<open>The filters of the two queries.\<close>

datatype query_filter =
    NumberEquals string pyval
  | DateEquals string pyval
  | SelectEquals string string
  | And "query_filter list"

text \<open>The calls the code makes on the third-party client: \<open>databases.query(database_id,
  filter)\<close>, \<open>pages.create(parent, properties)\<close> and \<open>pages.update(page_id, properties)\<close>.\<close>

datatype call =
    DatabasesQuery string query_filter
  | PagesCreate string properties
  | PagesUpdate pyval properties

text \<open>
  The store is outside the program. Its answer to a call, a response dictionary or an
  exception, may depend on every call made before: it is a function of the calls made so
  far and the call. The state threaded through the program is the list of calls made, in
  order.
\<close>

type_synonym store = "call list \<Rightarrow> call \<Rightarrow> error + pydict"

definition api_call :: "store \<Rightarrow> call list \<Rightarrow> call \<Rightarrow> (error + pydict) \<times> call list" where
  "api_call env tr c = (env tr c, tr @ [c])"

record NotionClient =
  activities_db_id :: string
  planned_db_id :: string

section \<open>The Notion client (notion.py)\<close>

subsection \<open>activity_exists\<close>

definition activity_exists ::
  "NotionClient \<Rightarrow> store \<Rightarrow> call list \<Rightarrow> pyval \<Rightarrow> (error + bool) \<times> call list" where
  "activity_exists self env tr strava_id =
     (case api_call env tr
             (DatabasesQuery (activities_db_id self) (NumberEquals ''Strava ID'' strava_id)) of
        (Inl e, tr') \<Rightarrow> (Inl e, tr')
      | (Inr response, tr') \<Rightarrow>
          (case py_len (dict_get response ''results'' (PList [])) of
             Inl e \<Rightarrow> (Inl e, tr')
           | Inr n \<Rightarrow> (Inr (n > 0), tr')))"

subsection \<open>create_activity\<close>

text \<open>The dictionary literal of the common properties; its two divisions can raise.\<close>

definition common_properties :: "pydict \<Rightarrow> string \<Rightarrow> error + properties" where
  "common_properties activity_data sport_type =
     (case py_truediv (dict_get activity_data ''distance'' (PNum 0)) (PNum 1000) of
        Inl e \<Rightarrow> Inl e
      | Inr distance \<Rightarrow>
     (case py_truediv (dict_get activity_data ''moving_time'' (PNum 0)) (PNum 60) of
        Inl e \<Rightarrow> Inl e
      | Inr duration \<Rightarrow>
          Inr [(''Name'', Title (dict_get activity_data ''name'' (PStr ''Untitled Activity''))),
               (''Strava ID'', Number (dict_get_none activity_data ''id'')),
               (''Type'', Select sport_type),
               (''Date'', DateStart (dict_get_none activity_data ''start_date'')),
               (''Distance'', Number distance),
               (''Duration'', Number duration),
               (''Elevation'', Number (dict_get activity_data ''total_elevation_gain'' (PNum 0)))]))"

text \<open>\<open>(activity_data.get('average_speed', 0) * 3.6) if activity_data.get('average_speed')
  else 0\<close>, shared by the Run and the Ride branch.\<close>

definition avg_speed_kmh :: "pydict \<Rightarrow> error + pyval" where
  "avg_speed_kmh activity_data =
     (if truthy (dict_get_none activity_data ''average_speed'')
      then py_mul_float (dict_get activity_data ''average_speed'' (PNum 0)) (18 / 5)
      else Inr (PNum 0))"

text \<open>\<open>if activity_data.get(key): properties[name] = {"number": activity_data.get(key)}\<close>.\<close>

definition set_if_present :: "pydict \<Rightarrow> string \<Rightarrow> string \<Rightarrow> properties \<Rightarrow> properties" where
  "set_if_present activity_data key name props =
     (if truthy (dict_get_none activity_data key)
      then dict_set props name (Number (dict_get_none activity_data key))
      else props)"

definition run_properties :: "pydict \<Rightarrow> properties \<Rightarrow> error + properties" where
  "run_properties activity_data props =
     (case avg_speed_kmh activity_data of
        Inl e \<Rightarrow> Inl e
      | Inr kmh \<Rightarrow>
     (case py_gt kmh 0 of
        Inl e \<Rightarrow> Inl e
      | Inr positive \<Rightarrow>
     (case (if positive then py_truediv (PNum 60) kmh else Inr (PNum 0)) of
        Inl e \<Rightarrow> Inl e
      | Inr pace \<Rightarrow>
          (let props1 = dict_set props ''Average Pace'' (Number pace);
               props2 = set_if_present activity_data ''average_heartrate'' ''Average HR'' props1
           in if truthy (dict_get_none activity_data ''average_cadence'')
              then (case py_mul_int (dict_get_none activity_data ''average_cadence'') 2 of
                      Inl e \<Rightarrow> Inl e
                    | Inr spm \<Rightarrow> Inr (dict_set props2 ''Cadence'' (Number spm)))
              else Inr props2))))"

definition ride_properties :: "pydict \<Rightarrow> properties \<Rightarrow> error + properties" where
  "ride_properties activity_data props =
     (case avg_speed_kmh activity_data of
        Inl e \<Rightarrow> Inl e
      | Inr kmh \<Rightarrow>
          (let props1 = dict_set props ''Average Speed'' (Number kmh);
               props2 = set_if_present activity_data ''average_watts'' ''Average Power'' props1
           in Inr (set_if_present activity_data ''average_heartrate'' ''Average HR'' props2)))"

definition swim_properties :: "pydict \<Rightarrow> properties \<Rightarrow> error + properties" where
  "swim_properties activity_data props =
     (let avg_speed_mps = dict_get activity_data ''average_speed'' (PNum 0)
      in case py_gt avg_speed_mps 0 of
           Inl e \<Rightarrow> Inl e
         | Inr positive \<Rightarrow>
             if positive
             then (case py_truediv (PNum 100) avg_speed_mps of
                     Inl e \<Rightarrow> Inl e
                   | Inr q \<Rightarrow>
                  (case py_truediv q (PNum 60) of
                     Inl e \<Rightarrow> Inl e
                   | Inr pace_per_100m \<Rightarrow>
                       Inr (dict_set props ''Average Pace'' (Number pace_per_100m))))
             else Inr props)"

text \<open>The \<open>properties\<close> dictionary as it stands when \<open>pages.create\<close> is called, or the
  exception raised while building it.\<close>

definition build_properties :: "pydict \<Rightarrow> string \<Rightarrow> error + properties" where
  "build_properties activity_data sport_type =
     (case common_properties activity_data sport_type of
        Inl e \<Rightarrow> Inl e
      | Inr props \<Rightarrow>
          if sport_type = ''Run'' then run_properties activity_data props
          else if sport_type = ''Ride'' then ride_properties activity_data props
          else if sport_type = ''Swim'' then swim_properties activity_data props
          else Inr props)"

text \<open>The body of the \<open>try\<close>: the page identifier, or the exception.\<close>

definition create_activity_try ::
  "NotionClient \<Rightarrow> store \<Rightarrow> call list \<Rightarrow> pydict \<Rightarrow> string \<Rightarrow> (error + pyval) \<times> call list" where
  "create_activity_try self env tr activity_data sport_type =
     (case build_properties activity_data sport_type of
        Inl e \<Rightarrow> (Inl e, tr)
      | Inr props \<Rightarrow>
          (case api_call env tr (PagesCreate (activities_db_id self) props) of
             (Inl e, tr') \<Rightarrow> (Inl e, tr')
           | (Inr response, tr') \<Rightarrow>
               (case response ''id'' of
                  None \<Rightarrow> (Inl KeyError, tr')
                | Some page_id \<Rightarrow> (Inr page_id, tr'))))"

text \<open>\<open>except Exception: return None\<close>.\<close>

definition create_activity ::
  "NotionClient \<Rightarrow> store \<Rightarrow> call list \<Rightarrow> pydict \<Rightarrow> string \<Rightarrow> pyval \<times> call list" where
  "create_activity self env tr activity_data sport_type =
     (case create_activity_try self env tr activity_data sport_type of
        (Inl e, tr') \<Rightarrow> (PNone, tr')
      | (Inr page_id, tr') \<Rightarrow> (page_id, tr'))"

subsection \<open>find_planned_activity\<close>

text \<open>\<open>activity_date.split('T')[0] if 'T' in activity_date else activity_date\<close>.\<close>

definition date_only_of :: "pyval \<Rightarrow> error + pyval" where
  "date_only_of activity_date =
     (case py_contains_T activity_date of
        Inl e \<Rightarrow> Inl e
      | Inr has_T \<Rightarrow> if has_T then py_split_T_first activity_date else Inr activity_date)"

text \<open>The body of the \<open>try\<close>.\<close>

definition find_planned_activity_try ::
  "NotionClient \<Rightarrow> store \<Rightarrow> call list \<Rightarrow> pyval \<Rightarrow> string \<Rightarrow> (error + pyval) \<times> call list" where
  "find_planned_activity_try self env tr activity_date sport_type =
     (case date_only_of activity_date of
        Inl e \<Rightarrow> (Inl e, tr)
      | Inr date_only \<Rightarrow>
          (case api_call env tr
                  (DatabasesQuery (planned_db_id self)
                     (And [DateEquals ''Date'' date_only, SelectEquals ''Type'' sport_type])) of
             (Inl e, tr') \<Rightarrow> (Inl e, tr')
           | (Inr response, tr') \<Rightarrow>
               (let results = dict_get response ''results'' (PList [])
                in if truthy results
                   then (case py_index0 results of
                           Inl e \<Rightarrow> (Inl e, tr')
                         | Inr first \<Rightarrow>
                             (case py_getitem_id first of
                                Inl e \<Rightarrow> (Inl e, tr')
                              | Inr planned_id \<Rightarrow> (Inr planned_id, tr')))
                   else (Inr PNone, tr'))))"

text \<open>\<open>except Exception: return None\<close>.\<close>

definition find_planned_activity ::
  "NotionClient \<Rightarrow> store \<Rightarrow> call list \<Rightarrow> pyval \<Rightarrow> string \<Rightarrow> pyval \<times> call list" where
  "find_planned_activity self env tr activity_date sport_type =
     (case find_planned_activity_try self env tr activity_date sport_type of
        (Inl e, tr') \<Rightarrow> (PNone, tr')
      | (Inr planned_id, tr') \<Rightarrow> (planned_id, tr'))"

subsection \<open>link_to_planned_activity and update_planned_status\<close>

definition link_call :: "pyval \<Rightarrow> pyval \<Rightarrow> call" where
  "link_call activity_id planned_id =
     PagesUpdate activity_id [(''Planned Activity'', Relation planned_id)]"

definition status_call :: "pyval \<Rightarrow> string \<Rightarrow> call" where
  "status_call planned_id status = PagesUpdate planned_id [(''Status'', Status status)]"

definition link_to_planned_activity ::
  "NotionClient \<Rightarrow> store \<Rightarrow> call list \<Rightarrow> pyval \<Rightarrow> pyval \<Rightarrow> bool \<times> call list" where
  "link_to_planned_activity self env tr activity_id planned_id =
     (case api_call env tr (link_call activity_id planned_id) of
        (Inl e, tr') \<Rightarrow> (False, tr')
      | (Inr response, tr') \<Rightarrow> (True, tr'))"

definition update_planned_status ::
  "NotionClient \<Rightarrow> store \<Rightarrow> call list \<Rightarrow> pyval \<Rightarrow> string \<Rightarrow> bool \<times> call list" where
  "update_planned_status self env tr planned_id status =
     (case api_call env tr (status_call planned_id status) of
        (Inl e, tr') \<Rightarrow> (False, tr')
      | (Inr response, tr') \<Rightarrow> (True, tr'))"

section \<open>The orchestrator (sync.py)\<close>

text \<open>The link and status steps of \<open>sync_activity\<close>, taken when \<open>planned_id\<close> is truthy.\<close>

definition link_and_update ::
  "NotionClient \<Rightarrow> store \<Rightarrow> call list \<Rightarrow> pyval \<Rightarrow> pyval \<Rightarrow> call list" where
  "link_and_update notion_client env tr activity_id planned_id =
     (case link_to_planned_activity notion_client env tr activity_id planned_id of
        (link_success, tr') \<Rightarrow>
          if link_success
          then snd (update_planned_status notion_client env tr' planned_id ''Done'')
          else tr')"

text \<open>The steps after a successful creation: they end in \<open>return True\<close>.\<close>

definition after_create ::
  "NotionClient \<Rightarrow> store \<Rightarrow> call list \<Rightarrow> pydict \<Rightarrow> string \<Rightarrow> pyval \<Rightarrow> (error + bool) \<times> call list" where
  "after_create notion_client env tr activity sport_type activity_id =
     (let activity_date = dict_get_none activity ''start_date''
      in case find_planned_activity notion_client env tr activity_date sport_type of
           (planned_id, tr') \<Rightarrow>
             if truthy planned_id
             then (Inr True, link_and_update notion_client env tr' activity_id planned_id)
             else (Inr True, tr'))"

text \<open>The body of the \<open>try\<close> of \<open>sync_activity\<close>: the value returned, or the exception that
  reaches the \<open>except\<close> clause.\<close>

definition sync_activity_try ::
  "NotionClient \<Rightarrow> store \<Rightarrow> call list \<Rightarrow> pydict \<Rightarrow> (error + bool) \<times> call list" where
  "sync_activity_try notion_client env tr activity =
     (let strava_id = dict_get_none activity ''id''
      in case activity_exists notion_client env tr strava_id of
           (Inl e, tr1) \<Rightarrow> (Inl e, tr1)
         | (Inr exists, tr1) \<Rightarrow>
             if exists then (Inr True, tr1)
             else (case get_sport_type activity of
                     Inl e \<Rightarrow> (Inl e, tr1)
                   | Inr sport_type \<Rightarrow>
                       if sport_type \<notin> set [''Run'', ''Ride'', ''Swim''] then (Inr True, tr1)
                       else (case create_activity notion_client env tr1 activity sport_type of
                               (activity_id, tr2) \<Rightarrow>
                                 if \<not> truthy activity_id then (Inr False, tr2)
                                 else after_create notion_client env tr2 activity sport_type
                                        activity_id)))"

text \<open>\<open>except Exception: return False\<close>.\<close>

definition sync_activity ::
  "NotionClient \<Rightarrow> store \<Rightarrow> call list \<Rightarrow> pydict \<Rightarrow> bool \<times> call list" where
  "sync_activity notion_client env tr activity =
     (case sync_activity_try notion_client env tr activity of
        (Inl e, tr') \<Rightarrow> (False, tr')
      | (Inr ok, tr') \<Rightarrow> (ok, tr'))"

text \<open>The state of the loop of \<open>main\<close>: the two counters and the calls made so far.\<close>

record loop_state =
  success_count :: nat
  failure_count :: nat
  calls :: "call list"

fun sync_loop :: "NotionClient \<Rightarrow> store \<Rightarrow> pydict list \<Rightarrow> loop_state \<Rightarrow> loop_state" where
  "sync_loop notion_client env [] st = st"
| "sync_loop notion_client env (activity # activities) st =
     (case sync_activity notion_client env (calls st) activity of
        (ok, tr') \<Rightarrow>
          sync_loop notion_client env activities
            (if ok then st\<lparr>success_count := success_count st + 1, calls := tr'\<rparr>
             else st\<lparr>failure_count := failure_count st + 1, calls := tr'\<rparr>))"

text \<open>\<open>main\<close> from the fetched activities on: an empty batch returns before the counters
  exist.\<close>

definition main_sync ::
  "NotionClient \<Rightarrow> store \<Rightarrow> pydict list \<Rightarrow> loop_state option" where
  "main_sync notion_client env activities =
     (if activities = [] then None
      else Some (sync_loop notion_client env activities
                   \<lparr>success_count = 0, failure_count = 0, calls = []\<rparr>))"

text \<open>The value \<open>sync_activity\<close> returns for each activity of the batch, in order.\<close>

fun sync_results :: "NotionClient \<Rightarrow> store \<Rightarrow> call list \<Rightarrow> pydict list \<Rightarrow> bool list" where
  "sync_results notion_client env tr [] = []"
| "sync_results notion_client env tr (activity # activities) =
     (case sync_activity notion_client env tr activity of
        (ok, tr') \<Rightarrow> ok # sync_results notion_client env tr' activities)"

section \<open>Example inputs\<close>

definition example_client :: NotionClient where
  "example_client = \<lparr>activities_db_id = ''activities-db'', planned_db_id = ''planned-db''\<rparr>"

text \<open>A store where every call succeeds, no activity exists yet and nothing is planned.\<close>

definition ok_store :: store where
  "ok_store tr c = Inr (map_of [(''id'', PStr ''page-1''), (''results'', PList [])])"

text \<open>A store that cannot be reached: every call raises.\<close>

definition failing_store :: store where
  "failing_store tr c = Inl RequestError"

text \<open>A store with two planned records for every date and category.\<close>

fun planned_store :: store where
  "planned_store tr (DatabasesQuery db f) =
     (if db = ''planned-db''
      then Inr (map_of [(''results'', PList [PDict [(''id'', PStr ''plan-1'')],
                                             PDict [(''id'', PStr ''plan-2'')]])])
      else Inr (map_of [(''results'', PList [])]))"
| "planned_store tr (PagesCreate db props) = Inr (map_of [(''id'', PStr ''page-1'')])"
| "planned_store tr (PagesUpdate page_id props) = Inr (map_of [(''id'', page_id)])"

text \<open>The same store, except that every page update raises.\<close>

fun update_failing_store :: store where
  "update_failing_store tr (PagesUpdate page_id props) = Inl RequestError"
| "update_failing_store tr c = planned_store tr c"

text \<open>A store that refuses to create the page of the activity with identifier 2.\<close>

fun flaky_store :: store where
  "flaky_store tr (PagesCreate db props) =
     (if map_of props ''Strava ID'' = Some (Number (PNum 2)) then Inl RequestError
      else Inr (map_of [(''id'', PStr ''page-1'')]))"
| "flaky_store tr c = Inr (map_of [(''results'', PList [])])"

definition run_without_speed :: pydict where
  "run_without_speed =
     map_of [(''id'', PNum 1), (''name'', PStr ''Morning Run''), (''type'', PStr ''Run''),
             (''sport_type'', PStr ''Run''), (''start_date'', PStr ''2024-05-01T07:00:00Z''),
             (''distance'', PNum 5000), (''moving_time'', PNum 1500),
             (''total_elevation_gain'', PNum 40)]"

definition ride_with_power :: pydict where
  "ride_with_power =
     map_of [(''id'', PNum 2), (''name'', PStr ''Evening Ride''), (''type'', PStr ''Ride''),
             (''sport_type'', PStr ''GravelRide''), (''start_date'', PStr ''2024-05-02T18:30:00Z''),
             (''distance'', PNum 30000), (''moving_time'', PNum 3600),
             (''total_elevation_gain'', PNum 250), (''average_speed'', PNum 10),
             (''average_watts'', PNum 180)]"

definition swim_with_speed :: pydict where
  "swim_with_speed =
     map_of [(''id'', PNum 3), (''name'', PStr ''Pool''), (''type'', PStr ''Swim''),
             (''sport_type'', PStr ''Swim''), (''start_date'', PStr ''2024-05-03''),
             (''distance'', PNum 1000), (''moving_time'', PNum 1200),
             (''average_speed'', PNum 1)]"

definition unnamed_ride :: pydict where
  "unnamed_ride =
     map_of [(''id'', PNum 4), (''name'', PStr []), (''type'', PStr ''Ride''),
             (''sport_type'', PStr ''Ride''), (''start_date'', PStr ''2024-05-04T09:00:00Z''),
             (''distance'', PNum 20000), (''moving_time'', PNum 3000)]"

definition nameless_ride :: pydict where
  "nameless_ride =
     map_of [(''id'', PNum 5), (''type'', PStr ''Ride''),
             (''sport_type'', PStr ''Ride''), (''start_date'', PStr ''2024-05-04T09:00:00Z''),
             (''distance'', PNum 20000), (''moving_time'', PNum 3000)]"

definition empty_subtype_run :: pydict where
  "empty_subtype_run =
     map_of [(''id'', PNum 6), (''name'', PStr ''Jog''), (''type'', PStr ''Run''),
             (''sport_type'', PStr [])]"

definition type_only_run :: pydict where
  "type_only_run = map_of [(''id'', PNum 7), (''name'', PStr ''Jog''), (''type'', PStr ''Run'')]"

definition yoga_session :: pydict where
  "yoga_session =
     map_of [(''id'', PNum 8), (''name'', PStr ''Yoga''), (''type'', PStr ''Yoga''),
             (''sport_type'', PStr ''Yoga''), (''start_date'', PStr ''2024-05-05T06:00:00Z'')]"

text \<open>A store in which every activity is already recorded.\<close>

fun duplicate_store :: store where
  "duplicate_store tr (DatabasesQuery db f) =
     Inr (map_of [(''results'', PList [PDict [(''id'', PStr ''page-7'')]])])"
| "duplicate_store tr c = Inr (map_of [(''id'', PStr ''page-1'')])"

text \<open>A batch of three activities, and the record written for the first of them.\<close>

definition example_batch :: "pydict list" where
  "example_batch = [run_without_speed, ride_with_power, swim_with_speed]"

definition run_without_speed_record :: properties where
  "run_without_speed_record =
     [(''Name'', Title (PStr ''Morning Run'')),
      (''Strava ID'', Number (PNum 1)),
      (''Type'', Select ''Run''),
      (''Date'', DateStart (PStr ''2024-05-01T07:00:00Z'')),
      (''Distance'', Number (PNum 5)),
      (''Duration'', Number (PNum 25)),
      (''Elevation'', Number (PNum 40)),
      (''Average Pace'', Number (PNum 0))]"

section \<open>Sport classification: the table and the fallback\<close>

text \<open>
  C3 (as amended). \<open>get_sport_type\<close> looks up the sub-type \<open>sport_type\<close>, falling back to
  the activity type \<open>type\<close> only when the record has no \<open>sport_type\<close> key at all, in the
  fixed table: the three running labels give Run, the five cycling labels give Ride,
  the two swimming labels give Swim, and every other label gives Other.
\<close>

theorem get_sport_type_table:
  assumes "label = (case activity ''sport_type'' of
                      Some v \<Rightarrow> v
                    | None \<Rightarrow> (case activity ''type'' of Some t \<Rightarrow> t | None \<Rightarrow> PStr []))"
    and "label = PStr s"
  shows "get_sport_type activity =
           Inr (if s \<in> {''Run'', ''TrailRun'', ''VirtualRun''} then ''Run''
                else if s \<in> {''Ride'', ''VirtualRide'', ''MountainBikeRide'', ''GravelRide'',
                              ''EBikeRide''} then ''Ride''
                else if s \<in> {''Swim'', ''OpenWaterSwim''} then ''Swim''
                else ''Other'')"
proof -
  have "get_sport_type activity = sport_type_map_get label"
    using assms(1) by (simp add: get_sport_type_def dict_get_def split: option.splits)
  also have "\<dots> = Inr (case map_of SPORT_TYPE_MAP s of None \<Rightarrow> ''Other'' | Some c \<Rightarrow> c)"
    using assms(2) by simp
  also have "(case map_of SPORT_TYPE_MAP s of None \<Rightarrow> ''Other'' | Some c \<Rightarrow> c) =
     (if s \<in> {''Run'', ''TrailRun'', ''VirtualRun''} then ''Run''
      else if s \<in> {''Ride'', ''VirtualRide'', ''MountainBikeRide'', ''GravelRide'',
                    ''EBikeRide''} then ''Ride''
      else if s \<in> {''Swim'', ''OpenWaterSwim''} then ''Swim''
      else ''Other'')"
    unfolding SPORT_TYPE_MAP_def by (simp del: One_nat_def)
  finally show ?thesis .
qed

text \<open>The sub-type GravelRide of a ride is looked up and gives Ride; a record with no
  sub-type falls back to its type.\<close>

theorem get_sport_type_table_witness:
  "get_sport_type ride_with_power = Inr ''Ride'' \<and> get_sport_type type_only_run = Inr ''Run''"
proof
  show "get_sport_type ride_with_power = Inr ''Ride''"
    using get_sport_type_table [of "PStr ''GravelRide''" ride_with_power "''GravelRide''"]
    by (simp add: ride_with_power_def)
  show "get_sport_type type_only_run = Inr ''Run''"
    using get_sport_type_table [of "PStr ''Run''" type_only_run "''Run''"]
    by (simp add: type_only_run_def)
qed

text \<open>An empty sub-type does not fall back: the type is Run, which the table maps to Run,
  but the empty sub-type is what is looked up, and the category is Other.\<close>

theorem get_sport_type_empty_subtype_counterexample:
  "empty_subtype_run ''sport_type'' = Some (PStr []) \<and>
   empty_subtype_run ''type'' = Some (PStr ''Run'') \<and>
   sport_type_map_get (PStr ''Run'') = Inr ''Run'' \<and>
   get_sport_type empty_subtype_run = Inr ''Other''"
  by (simp add: empty_subtype_run_def get_sport_type_def dict_get_def SPORT_TYPE_MAP_def)

section \<open>Shared lemmas\<close>

lemma map_of_dict_set: "map_of (dict_set ps k v) = (map_of ps)(k \<mapsto> v)"
  by (induction ps) (auto simp: fun_eq_iff)

lemma map_of_set_if_present:
  "map_of (set_if_present a key name ps) =
     (if truthy (dict_get_none a key)
      then (map_of ps)(name \<mapsto> Number (dict_get_none a key)) else map_of ps)"
  by (simp add: set_if_present_def map_of_dict_set)

lemma snd_create_activity:
  "snd (create_activity self env tr a st) =
     (case build_properties a st of
        Inl e \<Rightarrow> tr
      | Inr props \<Rightarrow> tr @ [PagesCreate (activities_db_id self) props])"
  by (simp add: create_activity_def create_activity_try_def api_call_def
      split: sum.splits option.splits prod.splits)

lemma created_record:
  assumes "snd (create_activity self env tr a st) = tr @ [PagesCreate db props]"
  shows "build_properties a st = Inr props"
  using assms unfolding snd_create_activity by (simp split: sum.splits)

lemma common_properties_map_of:
  assumes "common_properties a st = Inr ps"
  shows "map_of ps ''Name'' = Some (Title (dict_get a ''name'' (PStr ''Untitled Activity'')))"
    and "map_of ps ''Date'' = Some (DateStart (dict_get_none a ''start_date''))"
    and "map_of ps ''Average Pace'' = None"
    and "map_of ps ''Average HR'' = None"
    and "map_of ps ''Cadence'' = None"
    and "map_of ps ''Average Speed'' = None"
    and "map_of ps ''Average Power'' = None"
  using assms by (auto simp: common_properties_def split: sum.splits)

lemma avg_speed_kmh_value:
  assumes "avg_speed_kmh a = Inr kmh"
  shows "kmh = PNum (case num_of (dict_get_none a ''average_speed'') of
                       Some r \<Rightarrow> r * (18 / 5) | None \<Rightarrow> 0)"
  using assms
  by (cases "dict_get_none a ''average_speed''")
     (auto simp: avg_speed_kmh_def py_mul_float_def dict_get_def dict_get_none_def
       split: if_splits option.splits)

lemma run_fields:
  assumes "run_properties a ps = Inr props"
    and "map_of ps ''Average Pace'' = None" "map_of ps ''Average HR'' = None"
    and "map_of ps ''Cadence'' = None"
  shows "map_of props ''Average Pace'' =
           Some (Number (PNum (case num_of (dict_get_none a ''average_speed'') of
                                 Some r \<Rightarrow> if r > 0 then 60 / (r * (18 / 5)) else 0
                               | None \<Rightarrow> 0)))"
    and "map_of props ''Average HR'' =
           (if truthy (dict_get_none a ''average_heartrate'')
            then Some (Number (dict_get_none a ''average_heartrate'')) else None)"
    and "(map_of props ''Cadence'' \<noteq> None) = truthy (dict_get_none a ''average_cadence'')"
proof -
  from assms(1) obtain kmh where k: "avg_speed_kmh a = Inr kmh"
    by (auto simp: run_properties_def split: sum.splits)
  note kv = avg_speed_kmh_value [OF k]
  show "map_of props ''Average Pace'' =
           Some (Number (PNum (case num_of (dict_get_none a ''average_speed'') of
                                 Some r \<Rightarrow> if r > 0 then 60 / (r * (18 / 5)) else 0
                               | None \<Rightarrow> 0)))"
    using assms(1) k kv
    by (auto simp: run_properties_def Let_def map_of_dict_set map_of_set_if_present
        py_gt_def py_truediv_def zero_less_mult_iff
        split: sum.splits if_splits option.splits)
  show "map_of props ''Average HR'' =
           (if truthy (dict_get_none a ''average_heartrate'')
            then Some (Number (dict_get_none a ''average_heartrate'')) else None)"
    using assms(1,3)
    by (auto simp: run_properties_def Let_def map_of_dict_set map_of_set_if_present
        split: sum.splits if_splits)
  show "(map_of props ''Cadence'' \<noteq> None) = truthy (dict_get_none a ''average_cadence'')"
    using assms(1,4)
    by (auto simp: run_properties_def Let_def map_of_dict_set map_of_set_if_present
        split: sum.splits if_splits)
qed

lemma ride_fields:
  assumes "ride_properties a ps = Inr props"
    and "map_of ps ''Average Speed'' = None" "map_of ps ''Average HR'' = None"
    and "map_of ps ''Average Power'' = None"
  shows "map_of props ''Average Speed'' =
           Some (Number (PNum (case num_of (dict_get_none a ''average_speed'') of
                                 Some r \<Rightarrow> r * (18 / 5) | None \<Rightarrow> 0)))"
    and "map_of props ''Average Power'' =
           (if truthy (dict_get_none a ''average_watts'')
            then Some (Number (dict_get_none a ''average_watts'')) else None)"
    and "map_of props ''Average HR'' =
           (if truthy (dict_get_none a ''average_heartrate'')
            then Some (Number (dict_get_none a ''average_heartrate'')) else None)"
proof -
  from assms(1) obtain kmh where k: "avg_speed_kmh a = Inr kmh"
    by (auto simp: ride_properties_def split: sum.splits)
  note kv = avg_speed_kmh_value [OF k]
  show "map_of props ''Average Speed'' =
           Some (Number (PNum (case num_of (dict_get_none a ''average_speed'') of
                                 Some r \<Rightarrow> r * (18 / 5) | None \<Rightarrow> 0)))"
    using assms(1) k kv
    by (auto simp: ride_properties_def Let_def map_of_dict_set map_of_set_if_present)
  show "map_of props ''Average Power'' =
           (if truthy (dict_get_none a ''average_watts'')
            then Some (Number (dict_get_none a ''average_watts'')) else None)"
    using assms(1,4) k
    by (auto simp: ride_properties_def Let_def map_of_dict_set map_of_set_if_present)
  show "map_of props ''Average HR'' =
           (if truthy (dict_get_none a ''average_heartrate'')
            then Some (Number (dict_get_none a ''average_heartrate'')) else None)"
    using assms(1,3) k
    by (auto simp: ride_properties_def Let_def map_of_dict_set map_of_set_if_present)
qed

lemma swim_fields:
  assumes "swim_properties a ps = Inr props"
    and "map_of ps ''Average Pace'' = None"
  shows "map_of props ''Average Pace'' =
           (case num_of (dict_get_none a ''average_speed'') of
              Some r \<Rightarrow> if r > 0 then Some (Number (PNum (100 / r / 60))) else None
            | None \<Rightarrow> None)"
  using assms
  by (cases "a ''average_speed''")
     (auto simp: swim_properties_def Let_def map_of_dict_set py_gt_def py_truediv_def
       dict_get_def dict_get_none_def split: sum.splits if_splits option.splits)

lemma build_properties_cases:
  assumes "build_properties a st = Inr props"
  shows "\<exists>ps. common_properties a st = Inr ps \<and>
    (props = ps \<or> run_properties a ps = Inr props \<or> ride_properties a ps = Inr props
         \<or> swim_properties a ps = Inr props) \<and>
    (st = ''Run'' \<longrightarrow> run_properties a ps = Inr props) \<and>
    (st = ''Ride'' \<longrightarrow> ride_properties a ps = Inr props) \<and>
    (st = ''Swim'' \<longrightarrow> swim_properties a ps = Inr props)"
  using assms by (auto simp: build_properties_def split: sum.splits if_splits)

lemma run_keeps:
  assumes "run_properties a ps = Inr props"
  shows "map_of props ''Name'' = map_of ps ''Name''" and "map_of props ''Date'' = map_of ps ''Date''"
  using assms
  by (auto simp: run_properties_def Let_def map_of_dict_set map_of_set_if_present
      split: sum.splits if_splits)

lemma ride_keeps:
  assumes "ride_properties a ps = Inr props"
  shows "map_of props ''Name'' = map_of ps ''Name''" and "map_of props ''Date'' = map_of ps ''Date''"
  using assms
  by (auto simp: ride_properties_def Let_def map_of_dict_set map_of_set_if_present
      split: sum.splits if_splits)

lemma swim_keeps:
  assumes "swim_properties a ps = Inr props"
  shows "map_of props ''Name'' = map_of ps ''Name''" and "map_of props ''Date'' = map_of ps ''Date''"
  using assms
  by (auto simp: swim_properties_def Let_def map_of_dict_set
      split: sum.splits if_splits)

lemma build_properties_Name:
  assumes "build_properties a st = Inr props"
  shows "map_of props ''Name'' = Some (Title (dict_get a ''name'' (PStr ''Untitled Activity'')))"
proof -
  from assms obtain ps where c: "common_properties a st = Inr ps"
    and d: "props = ps \<or> run_properties a ps = Inr props \<or> ride_properties a ps = Inr props
         \<or> swim_properties a ps = Inr props"
    using build_properties_cases by blast
  from d have "map_of props ''Name'' = map_of ps ''Name''"
    using run_keeps(1) ride_keeps(1) swim_keeps(1) by blast
  then show ?thesis using common_properties_map_of(1) [OF c] by simp
qed

lemma build_properties_Date:
  assumes "build_properties a st = Inr props"
  shows "map_of props ''Date'' = Some (DateStart (dict_get_none a ''start_date''))"
proof -
  from assms obtain ps where c: "common_properties a st = Inr ps"
    and d: "props = ps \<or> run_properties a ps = Inr props \<or> ride_properties a ps = Inr props
         \<or> swim_properties a ps = Inr props"
    using build_properties_cases by blast
  from d have "map_of props ''Date'' = map_of ps ''Date''"
    using run_keeps(2) ride_keeps(2) swim_keeps(2) by blast
  then show ?thesis using common_properties_map_of(2) [OF c] by simp
qed

lemma takeWhile_no_T:
  "(takeWhile (\<lambda>c. c \<noteq> CHR ''T'') ts = ts) = (CHR ''T'' \<notin> set ts)"
  unfolding takeWhile_eq_all_conv by blast

lemma date_only_of_str:
  "date_only_of (PStr ts) = Inr (PStr (takeWhile (\<lambda>c. c \<noteq> CHR ''T'') ts))"
proof (cases "CHR ''T'' \<in> set ts")
  case True
  then show ?thesis by (simp add: date_only_of_def)
next
  case False
  then have eq: "takeWhile (\<lambda>c. c \<noteq> CHR ''T'') ts = ts" using takeWhile_no_T [of ts] by blast
  have "date_only_of (PStr ts) = Inr (PStr ts)" using False by (simp add: date_only_of_def)
  then show ?thesis by (simp only: eq)
qed

lemma snd_find_planned_activity_str:
  "snd (find_planned_activity self env tr (PStr ts) st) =
     tr @ [DatabasesQuery (planned_db_id self)
             (And [DateEquals ''Date'' (PStr (takeWhile (\<lambda>c. c \<noteq> CHR ''T'') ts)),
                   SelectEquals ''Type'' st])]"
  by (simp add: find_planned_activity_def find_planned_activity_try_def date_only_of_str
      api_call_def Let_def split: sum.splits prod.splits)


lemmas build_defs =
  build_properties_def common_properties_def run_properties_def ride_properties_def
  swim_properties_def avg_speed_kmh_def set_if_present_def dict_get_def dict_get_none_def
  py_truediv_def py_mul_float_def py_gt_def

lemmas client_defs =
  create_activity_def create_activity_try_def api_call_def activity_exists_def
  find_planned_activity_def find_planned_activity_try_def date_only_of_def
  link_to_planned_activity_def update_planned_status_def link_call_def status_call_def

lemmas sync_defs =
  sync_activity_def sync_activity_try_def after_create_def link_and_update_def
  get_sport_type_def SPORT_TYPE_MAP_def

section \<open>Field mapping: the category-specific fields\<close>

text \<open>
  C1 (as amended). In the record that \<open>create_activity\<close> sends to the store, the Run
  fields Average HR and Cadence, the Ride fields Average Power and Average HR and the
  Swim field Average Pace are included only when their source input is present and
  non-zero (for the Swim pace: greater than zero). The Run field Average Pace and the
  Ride field Average Speed are always included: the pace is \<open>60 / (speed * 3.6)\<close> for a
  positive speed and 0 otherwise, the speed is \<open>speed * 3.6\<close>, and 0 when the average
  speed is absent or zero.
\<close>

theorem derived_fields_of_created_record:
  assumes "snd (create_activity self env tr a st) = tr @ [PagesCreate db props]"
  shows "(st = ''Run'' \<longrightarrow>
            map_of props ''Average Pace'' =
              Some (Number (PNum (case num_of (dict_get_none a ''average_speed'') of
                                    Some r \<Rightarrow> if r > 0 then 60 / (r * (18 / 5)) else 0
                                  | None \<Rightarrow> 0))) \<and>
            map_of props ''Average HR'' =
              (if truthy (dict_get_none a ''average_heartrate'')
               then Some (Number (dict_get_none a ''average_heartrate'')) else None) \<and>
            (map_of props ''Cadence'' \<noteq> None) = truthy (dict_get_none a ''average_cadence'')) \<and>
         (st = ''Ride'' \<longrightarrow>
            map_of props ''Average Speed'' =
              Some (Number (PNum (case num_of (dict_get_none a ''average_speed'') of
                                    Some r \<Rightarrow> r * (18 / 5) | None \<Rightarrow> 0))) \<and>
            map_of props ''Average Power'' =
              (if truthy (dict_get_none a ''average_watts'')
               then Some (Number (dict_get_none a ''average_watts'')) else None) \<and>
            map_of props ''Average HR'' =
              (if truthy (dict_get_none a ''average_heartrate'')
               then Some (Number (dict_get_none a ''average_heartrate'')) else None)) \<and>
         (st = ''Swim'' \<longrightarrow>
            map_of props ''Average Pace'' =
              (case num_of (dict_get_none a ''average_speed'') of
                 Some r \<Rightarrow> if r > 0 then Some (Number (PNum (100 / r / 60))) else None
               | None \<Rightarrow> None))"
proof -
  from assms have b: "build_properties a st = Inr props" by (rule created_record)
  then obtain ps where c: "common_properties a st = Inr ps"
    and run: "st = ''Run'' \<Longrightarrow> run_properties a ps = Inr props"
    and ride: "st = ''Ride'' \<Longrightarrow> ride_properties a ps = Inr props"
    and swim: "st = ''Swim'' \<Longrightarrow> swim_properties a ps = Inr props"
    using build_properties_cases by blast
  note cm = common_properties_map_of [OF c]
  show ?thesis
  proof (intro conjI impI)
    assume "st = ''Run''"
    then have r: "run_properties a ps = Inr props" by (rule run)
    note run_fields [OF r cm(3) cm(4) cm(5)]
    then show "map_of props ''Average Pace'' =
              Some (Number (PNum (case num_of (dict_get_none a ''average_speed'') of
                                    Some r \<Rightarrow> if r > 0 then 60 / (r * (18 / 5)) else 0
                                  | None \<Rightarrow> 0)))"
      and "map_of props ''Average HR'' =
              (if truthy (dict_get_none a ''average_heartrate'')
               then Some (Number (dict_get_none a ''average_heartrate'')) else None)"
      and "(map_of props ''Cadence'' \<noteq> None) = truthy (dict_get_none a ''average_cadence'')"
      by blast+
  next
    assume "st = ''Ride''"
    then have r: "ride_properties a ps = Inr props" by (rule ride)
    note ride_fields [OF r cm(6) cm(4) cm(7)]
    then show "map_of props ''Average Speed'' =
              Some (Number (PNum (case num_of (dict_get_none a ''average_speed'') of
                                    Some r \<Rightarrow> r * (18 / 5) | None \<Rightarrow> 0)))"
      and "map_of props ''Average Power'' =
              (if truthy (dict_get_none a ''average_watts'')
               then Some (Number (dict_get_none a ''average_watts'')) else None)"
      and "map_of props ''Average HR'' =
              (if truthy (dict_get_none a ''average_heartrate'')
               then Some (Number (dict_get_none a ''average_heartrate'')) else None)"
      by blast+
  next
    assume "st = ''Swim''"
    then have r: "swim_properties a ps = Inr props" by (rule swim)
    show "map_of props ''Average Pace'' =
              (case num_of (dict_get_none a ''average_speed'') of
                 Some r \<Rightarrow> if r > 0 then Some (Number (PNum (100 / r / 60))) else None
               | None \<Rightarrow> None)"
      by (rule swim_fields [OF r cm(3)])
  qed
qed


text \<open>A ride at 10 m/s with 180 W and no heart rate: speed 36 km/h and the power are
  written, the heart rate is left out.\<close>

theorem derived_fields_of_created_record_witness:
  "snd (create_activity example_client ok_store [] ride_with_power ''Ride'') =
     [] @ [PagesCreate ''activities-db''
       [(''Name'', Title (PStr ''Evening Ride'')),
        (''Strava ID'', Number (PNum 2)),
        (''Type'', Select ''Ride''),
        (''Date'', DateStart (PStr ''2024-05-02T18:30:00Z'')),
        (''Distance'', Number (PNum 30)),
        (''Duration'', Number (PNum 60)),
        (''Elevation'', Number (PNum 250)),
        (''Average Speed'', Number (PNum 36)),
        (''Average Power'', Number (PNum 180))]] \<and>
   truthy (dict_get_none ride_with_power ''average_watts'') \<and>
   \<not> truthy (dict_get_none ride_with_power ''average_heartrate'')"
proof -
  let ?r = "[(''Name'', Title (PStr ''Evening Ride'')),
        (''Strava ID'', Number (PNum 2)),
        (''Type'', Select ''Ride''),
        (''Date'', DateStart (PStr ''2024-05-02T18:30:00Z'')),
        (''Distance'', Number (PNum 30)),
        (''Duration'', Number (PNum 60)),
        (''Elevation'', Number (PNum 250)),
        (''Average Speed'', Number (PNum 36)),
        (''Average Power'', Number (PNum 180))]"
  have h: "snd (create_activity example_client ok_store [] ride_with_power ''Ride'') =
             [] @ [PagesCreate ''activities-db'' ?r]"
    by (simp add: build_defs client_defs example_client_def ok_store_def ride_with_power_def)
  have "map_of ?r ''Average Power'' =
          (if truthy (dict_get_none ride_with_power ''average_watts'')
           then Some (Number (dict_get_none ride_with_power ''average_watts'')) else None)"
    and "map_of ?r ''Average HR'' =
          (if truthy (dict_get_none ride_with_power ''average_heartrate'')
           then Some (Number (dict_get_none ride_with_power ''average_heartrate'')) else None)"
    using derived_fields_of_created_record [OF h] by blast+
  then have "truthy (dict_get_none ride_with_power ''average_watts'')"
    and "\<not> truthy (dict_get_none ride_with_power ''average_heartrate'')"
    by (simp_all split: if_splits)
  with h show ?thesis by blast
qed

text \<open>A run whose record has no average speed: the record written to the store has the
  field Average Pace, with value 0.\<close>

theorem run_without_speed_counterexample:
  "run_without_speed ''average_speed'' = None \<and>
   snd (create_activity example_client ok_store [] run_without_speed ''Run'') =
     [PagesCreate ''activities-db''
       [(''Name'', Title (PStr ''Morning Run'')),
        (''Strava ID'', Number (PNum 1)),
        (''Type'', Select ''Run''),
        (''Date'', DateStart (PStr ''2024-05-01T07:00:00Z'')),
        (''Distance'', Number (PNum 5)),
        (''Duration'', Number (PNum 25)),
        (''Elevation'', Number (PNum 40)),
        (''Average Pace'', Number (PNum 0))]]"
  by (simp add: build_defs client_defs example_client_def ok_store_def run_without_speed_def)

section \<open>Field mapping: the title\<close>

text \<open>
  C9 (as amended). The title of the record that \<open>create_activity\<close> sends to the store is
  the fixed placeholder \<open>Untitled Activity\<close> when the activity has no \<open>name\<close> key, and the
  name itself otherwise: an empty name gives an empty title.
\<close>

theorem title_of_created_record:
  assumes "snd (create_activity self env tr a st) = tr @ [PagesCreate db props]"
  shows "map_of props ''Name'' =
           Some (Title (case a ''name'' of None \<Rightarrow> PStr ''Untitled Activity'' | Some v \<Rightarrow> v))"
  using build_properties_Name [OF created_record [OF assms]] by (simp add: dict_get_def)


text \<open>A ride without a name key gets the placeholder.\<close>

theorem title_of_created_record_witness:
  "snd (create_activity example_client ok_store [] nameless_ride ''Ride'') =
     [] @ [PagesCreate ''activities-db''
       [(''Name'', Title (PStr ''Untitled Activity'')),
        (''Strava ID'', Number (PNum 5)),
        (''Type'', Select ''Ride''),
        (''Date'', DateStart (PStr ''2024-05-04T09:00:00Z'')),
        (''Distance'', Number (PNum 20)),
        (''Duration'', Number (PNum 50)),
        (''Elevation'', Number (PNum 0)),
        (''Average Speed'', Number (PNum 0))]] \<and>
   (case nameless_ride ''name'' of None \<Rightarrow> PStr ''Untitled Activity'' | Some v \<Rightarrow> v) =
     PStr ''Untitled Activity''"
proof -
  let ?r = "[(''Name'', Title (PStr ''Untitled Activity'')),
        (''Strava ID'', Number (PNum 5)),
        (''Type'', Select ''Ride''),
        (''Date'', DateStart (PStr ''2024-05-04T09:00:00Z'')),
        (''Distance'', Number (PNum 20)),
        (''Duration'', Number (PNum 50)),
        (''Elevation'', Number (PNum 0)),
        (''Average Speed'', Number (PNum 0))]"
  have h: "snd (create_activity example_client ok_store [] nameless_ride ''Ride'') =
             [] @ [PagesCreate ''activities-db'' ?r]"
    by (simp add: build_defs client_defs example_client_def ok_store_def nameless_ride_def)
  from title_of_created_record [OF h]
  have "(case nameless_ride ''name'' of None \<Rightarrow> PStr ''Untitled Activity'' | Some v \<Rightarrow> v) =
     PStr ''Untitled Activity''"
    by simp
  with h show ?thesis by blast
qed

text \<open>A ride whose name is the empty string: the title written is the empty string.\<close>

theorem empty_name_counterexample:
  "unnamed_ride ''name'' = Some (PStr []) \<and>
   snd (create_activity example_client ok_store [] unnamed_ride ''Ride'') =
     [PagesCreate ''activities-db''
       [(''Name'', Title (PStr [])),
        (''Strava ID'', Number (PNum 4)),
        (''Type'', Select ''Ride''),
        (''Date'', DateStart (PStr ''2024-05-04T09:00:00Z'')),
        (''Distance'', Number (PNum 20)),
        (''Duration'', Number (PNum 50)),
        (''Elevation'', Number (PNum 0)),
        (''Average Speed'', Number (PNum 0))]]"
  by (simp add: build_defs client_defs example_client_def ok_store_def unnamed_ride_def)

section \<open>Field mapping: the date\<close>

text \<open>
  C2 (as amended). The date field of the record that \<open>create_activity\<close> sends to the
  store is the start timestamp of the activity unchanged, time part included. Only the
  planned-activity matcher truncates: its query uses the timestamp cut at the first
  \<open>T\<close>. The stored date equals the matcher's date exactly when the timestamp contains
  no \<open>T\<close>.
\<close>

theorem date_of_created_record:
  assumes "snd (create_activity self env tr a st) = tr @ [PagesCreate db props]"
    and "a ''start_date'' = Some (PStr ts)"
  shows "map_of props ''Date'' = Some (DateStart (PStr ts)) \<and>
         snd (find_planned_activity self env tr' (PStr ts) st) =
           tr' @ [DatabasesQuery (planned_db_id self)
                    (And [DateEquals ''Date'' (PStr (takeWhile (\<lambda>c. c \<noteq> CHR ''T'') ts)),
                          SelectEquals ''Type'' st])] \<and>
         (takeWhile (\<lambda>c. c \<noteq> CHR ''T'') ts = ts) = (CHR ''T'' \<notin> set ts)"
proof (intro conjI)
  show "map_of props ''Date'' = Some (DateStart (PStr ts))"
    using build_properties_Date [OF created_record [OF assms(1)]] assms(2)
    by (simp add: dict_get_none_def dict_get_def)
  show "snd (find_planned_activity self env tr' (PStr ts) st) =
           tr' @ [DatabasesQuery (planned_db_id self)
                    (And [DateEquals ''Date'' (PStr (takeWhile (\<lambda>c. c \<noteq> CHR ''T'') ts)),
                          SelectEquals ''Type'' st])]"
    by (rule snd_find_planned_activity_str)
  show "(takeWhile (\<lambda>c. c \<noteq> CHR ''T'') ts = ts) = (CHR ''T'' \<notin> set ts)"
    by (rule takeWhile_no_T)
qed

text \<open>A ride that started at 18:30: the timestamp is stored whole, the matcher asks for
  the day.\<close>

theorem date_of_created_record_witness:
  "snd (create_activity example_client ok_store [] ride_with_power ''Ride'') =
     [] @ [PagesCreate ''activities-db''
       [(''Name'', Title (PStr ''Evening Ride'')),
        (''Strava ID'', Number (PNum 2)),
        (''Type'', Select ''Ride''),
        (''Date'', DateStart (PStr ''2024-05-02T18:30:00Z'')),
        (''Distance'', Number (PNum 30)),
        (''Duration'', Number (PNum 60)),
        (''Elevation'', Number (PNum 250)),
        (''Average Speed'', Number (PNum 36)),
        (''Average Power'', Number (PNum 180))]] \<and>
   ride_with_power ''start_date'' = Some (PStr ''2024-05-02T18:30:00Z'') \<and>
   snd (find_planned_activity example_client ok_store [] (PStr ''2024-05-02T18:30:00Z'') ''Ride'') =
     [DatabasesQuery ''planned-db''
        (And [DateEquals ''Date'' (PStr ''2024-05-02''), SelectEquals ''Type'' ''Ride''])]"
proof -
  let ?r = "[(''Name'', Title (PStr ''Evening Ride'')),
        (''Strava ID'', Number (PNum 2)),
        (''Type'', Select ''Ride''),
        (''Date'', DateStart (PStr ''2024-05-02T18:30:00Z'')),
        (''Distance'', Number (PNum 30)),
        (''Duration'', Number (PNum 60)),
        (''Elevation'', Number (PNum 250)),
        (''Average Speed'', Number (PNum 36)),
        (''Average Power'', Number (PNum 180))]"
  have h: "snd (create_activity example_client ok_store [] ride_with_power ''Ride'') =
             [] @ [PagesCreate ''activities-db'' ?r]"
    by (simp add: build_defs client_defs example_client_def ok_store_def ride_with_power_def)
  have d: "ride_with_power ''start_date'' = Some (PStr ''2024-05-02T18:30:00Z'')"
    by (simp add: ride_with_power_def)
  from date_of_created_record [OF h d, of "[]"]
  have "snd (find_planned_activity example_client ok_store [] (PStr ''2024-05-02T18:30:00Z'') ''Ride'') =
     [DatabasesQuery ''planned-db''
        (And [DateEquals ''Date'' (PStr ''2024-05-02''), SelectEquals ''Type'' ''Ride''])]"
    by (simp add: example_client_def)
  with h d show ?thesis by blast
qed

text \<open>A run that started at 07:00: the date stored is the whole timestamp, while the
  matcher, given the same start date, asks for 2024-05-01.\<close>

theorem stored_date_counterexample:
  "snd (create_activity example_client ok_store [] run_without_speed ''Run'') =
     [PagesCreate ''activities-db''
       [(''Name'', Title (PStr ''Morning Run'')),
        (''Strava ID'', Number (PNum 1)),
        (''Type'', Select ''Run''),
        (''Date'', DateStart (PStr ''2024-05-01T07:00:00Z'')),
        (''Distance'', Number (PNum 5)),
        (''Duration'', Number (PNum 25)),
        (''Elevation'', Number (PNum 40)),
        (''Average Pace'', Number (PNum 0))]] \<and>
   snd (find_planned_activity example_client ok_store []
          (dict_get_none run_without_speed ''start_date'') ''Run'') =
     [DatabasesQuery ''planned-db''
        (And [DateEquals ''Date'' (PStr ''2024-05-01''), SelectEquals ''Type'' ''Run''])] \<and>
   PStr ''2024-05-01T07:00:00Z'' \<noteq> PStr ''2024-05-01''"
  by (simp add: build_defs client_defs example_client_def ok_store_def run_without_speed_def)

section \<open>Shared lemmas on the orchestrator\<close>

lemma snd_activity_exists:
  "snd (activity_exists c env tr i) =
     tr @ [DatabasesQuery (activities_db_id c) (NumberEquals ''Strava ID'' i)]"
  by (simp add: activity_exists_def api_call_def split: sum.splits prod.splits)

lemma activity_exists_failure:
  assumes "env tr (DatabasesQuery (activities_db_id c) (NumberEquals ''Strava ID'' i)) = Inl e"
  shows "activity_exists c env tr i =
           (Inl e, tr @ [DatabasesQuery (activities_db_id c) (NumberEquals ''Strava ID'' i)])"
  using assms by (simp add: activity_exists_def api_call_def)

lemma link_to_planned_activity_eq:
  "link_to_planned_activity c env tr aid pid =
     (case env tr (link_call aid pid) of Inl e \<Rightarrow> False | Inr r \<Rightarrow> True,
      tr @ [link_call aid pid])"
  by (simp add: link_to_planned_activity_def api_call_def split: sum.splits)

lemma update_planned_status_eq:
  "update_planned_status c env tr pid status =
     (case env tr (status_call pid status) of Inl e \<Rightarrow> False | Inr r \<Rightarrow> True,
      tr @ [status_call pid status])"
  by (simp add: update_planned_status_def api_call_def split: sum.splits)

lemma link_and_update_eq:
  "link_and_update c env tr aid pid =
     tr @ link_call aid pid #
       (case env tr (link_call aid pid) of
          Inl e \<Rightarrow> []
        | Inr r \<Rightarrow> [status_call pid ''Done''])"
  by (simp add: link_and_update_def link_to_planned_activity_eq update_planned_status_eq
      split: sum.splits)

lemma length_sync_results: "length (sync_results c env tr acts) = length acts"
  by (induction acts arbitrary: tr) (auto split: prod.splits)

lemma success_count_sync_loop:
  "success_count (sync_loop c env acts st) =
     success_count st + length (filter (\<lambda>ok. ok) (sync_results c env (calls st) acts))"
proof (induction acts arbitrary: st)
  case Nil
  then show ?case by simp
next
  case (Cons a acts)
  obtain ok tr' where s: "sync_activity c env (calls st) a = (ok, tr')"
    by (cases "sync_activity c env (calls st) a")
  show ?case by (cases ok) (simp_all add: s Cons.IH)
qed

lemma failure_count_sync_loop:
  "failure_count (sync_loop c env acts st) =
     failure_count st + length (filter Not (sync_results c env (calls st) acts))"
proof (induction acts arbitrary: st)
  case Nil
  then show ?case by simp
next
  case (Cons a acts)
  obtain ok tr' where s: "sync_activity c env (calls st) a = (ok, tr')"
    by (cases "sync_activity c env (calls st) a")
  show ?case by (cases ok) (simp_all add: s Cons.IH)
qed

lemma length_filter_partition:
  "length (filter (\<lambda>ok. ok) bs) + length (filter Not bs) = length bs"
  by (induction bs) auto

lemma create_activity_extends: "\<exists>more. snd (create_activity c env tr a st) = tr @ more"
  by (simp add: snd_create_activity split: sum.splits)

lemma find_planned_activity_extends:
  "\<exists>more. snd (find_planned_activity c env tr d st) = tr @ more"
  by (simp add: find_planned_activity_def find_planned_activity_try_def api_call_def Let_def
      split: sum.splits prod.splits)

lemma after_create_extends: "\<exists>more. snd (after_create c env tr a st aid) = tr @ more"
proof -
  obtain pid tr' where f:
    "find_planned_activity c env tr (dict_get_none a ''start_date'') st = (pid, tr')"
    by (cases "find_planned_activity c env tr (dict_get_none a ''start_date'') st")
  with find_planned_activity_extends [of c env tr "dict_get_none a ''start_date''" st]
  obtain m where "tr' = tr @ m" by auto
  then show ?thesis by (simp add: after_create_def f link_and_update_eq)
qed

lemma sync_activity_try_starts_with_query:
  "\<exists>more. snd (sync_activity_try c env tr a) =
     tr @ DatabasesQuery (activities_db_id c)
            (NumberEquals ''Strava ID'' (dict_get_none a ''id'')) # more"
proof -
  let ?q = "DatabasesQuery (activities_db_id c)
              (NumberEquals ''Strava ID'' (dict_get_none a ''id''))"
  obtain r where e: "activity_exists c env tr (dict_get_none a ''id'') = (r, tr @ [?q])"
    using snd_activity_exists [of c env tr "dict_get_none a ''id''"]
    by (cases "activity_exists c env tr (dict_get_none a ''id'')") simp
  show ?thesis
  proof (cases r)
    case (Inl err)
    then show ?thesis by (simp add: sync_activity_try_def e)
  next
    case (Inr exists)
    show ?thesis
    proof (cases "get_sport_type a")
      case (Inl err)
      then show ?thesis by (simp add: sync_activity_try_def e Inr)
    next
      case st: (Inr st)
      obtain aid tr2 where cr: "create_activity c env (tr @ [?q]) a st = (aid, tr2)"
        by (cases "create_activity c env (tr @ [?q]) a st")
      with create_activity_extends [of c env "tr @ [?q]" a st]
      obtain m where m: "tr2 = tr @ ?q # m" by auto
      from after_create_extends [of c env tr2 a st aid]
      obtain m' where "snd (after_create c env tr2 a st aid) = tr @ ?q # (m @ m')"
        by (auto simp: m)
      moreover have "snd (sync_activity_try c env tr a) = tr @ [?q] \<or>
          snd (sync_activity_try c env tr a) = tr2 \<or>
          snd (sync_activity_try c env tr a) = snd (after_create c env tr2 a st aid)"
        by (simp add: sync_activity_try_def e Inr st cr)
      ultimately show ?thesis
        using m by auto
    qed
  qed
qed

lemma sync_activity_starts_with_query:
  "\<exists>more. snd (sync_activity c env tr a) =
     tr @ DatabasesQuery (activities_db_id c)
            (NumberEquals ''Strava ID'' (dict_get_none a ''id'')) # more"
  using sync_activity_try_starts_with_query [of c env tr a]
  by (auto simp: sync_activity_def split: prod.splits sum.splits)

lemma calls_sync_loop:
  "set (calls st) \<union>
   (\<lambda>a. DatabasesQuery (activities_db_id c)
           (NumberEquals ''Strava ID'' (dict_get_none a ''id''))) ` set acts
   \<subseteq> set (calls (sync_loop c env acts st))"
proof (induction acts arbitrary: st)
  case Nil
  then show ?case by simp
next
  case (Cons a acts)
  let ?q = "DatabasesQuery (activities_db_id c)
              (NumberEquals ''Strava ID'' (dict_get_none a ''id''))"
  obtain ok tr' where s: "sync_activity c env (calls st) a = (ok, tr')"
    by (cases "sync_activity c env (calls st) a")
  with sync_activity_starts_with_query [of c env "calls st" a]
  obtain m where m: "tr' = calls st @ ?q # m" by auto
  show ?case
  proof (cases ok)
    case True
    with Cons.IH [of "st\<lparr>success_count := success_count st + 1, calls := tr'\<rparr>"] s m
    show ?thesis by auto
  next
    case False
    with Cons.IH [of "st\<lparr>failure_count := failure_count st + 1, calls := tr'\<rparr>"] s m
    show ?thesis by auto
  qed
qed


text \<open>The example batch against the store that refuses the second creation.\<close>

lemma sync_run_flaky:
  "sync_activity example_client flaky_store tr run_without_speed =
     (True, tr @ [DatabasesQuery ''activities-db'' (NumberEquals ''Strava ID'' (PNum 1)),
                  PagesCreate ''activities-db'' run_without_speed_record,
                  DatabasesQuery ''planned-db''
                    (And [DateEquals ''Date'' (PStr ''2024-05-01''),
                          SelectEquals ''Type'' ''Run''])])"
  by (simp add: sync_defs client_defs build_defs example_client_def run_without_speed_def
      run_without_speed_record_def)

lemma sync_ride_flaky:
  "sync_activity example_client flaky_store tr ride_with_power =
     (False, tr @ [DatabasesQuery ''activities-db'' (NumberEquals ''Strava ID'' (PNum 2)),
                  PagesCreate ''activities-db''
       [(''Name'', Title (PStr ''Evening Ride'')),
        (''Strava ID'', Number (PNum 2)),
        (''Type'', Select ''Ride''),
        (''Date'', DateStart (PStr ''2024-05-02T18:30:00Z'')),
        (''Distance'', Number (PNum 30)),
        (''Duration'', Number (PNum 60)),
        (''Elevation'', Number (PNum 250)),
        (''Average Speed'', Number (PNum 36)),
        (''Average Power'', Number (PNum 180))]])"
  by (simp add: sync_defs client_defs build_defs example_client_def ride_with_power_def)

lemma sync_swim_flaky:
  "sync_activity example_client flaky_store tr swim_with_speed =
     (True, tr @ [DatabasesQuery ''activities-db'' (NumberEquals ''Strava ID'' (PNum 3)),
                  PagesCreate ''activities-db''
       [(''Name'', Title (PStr ''Pool'')),
        (''Strava ID'', Number (PNum 3)),
        (''Type'', Select ''Swim''),
        (''Date'', DateStart (PStr ''2024-05-03'')),
        (''Distance'', Number (PNum 1)),
        (''Duration'', Number (PNum 20)),
        (''Elevation'', Number (PNum 0)),
        (''Average Pace'', Number (PNum (5 / 3)))],
                  DatabasesQuery ''planned-db''
                    (And [DateEquals ''Date'' (PStr ''2024-05-03''),
                          SelectEquals ''Type'' ''Swim''])])"
  by (simp add: sync_defs client_defs build_defs example_client_def swim_with_speed_def)

lemma example_batch_results:
  "sync_results example_client flaky_store tr example_batch = [True, False, True]"
  by (simp add: example_batch_def sync_run_flaky sync_ride_flaky sync_swim_flaky)

lemma example_batch_counts:
  "success_count (sync_loop example_client flaky_store example_batch
      \<lparr>success_count = 0, failure_count = 0, calls = tr\<rparr>) = 2 \<and>
   failure_count (sync_loop example_client flaky_store example_batch
      \<lparr>success_count = 0, failure_count = 0, calls = tr\<rparr>) = 1"
  by (simp add: example_batch_def sync_run_flaky sync_ride_flaky sync_swim_flaky)


section \<open>Duplicate check: a failing query\<close>

text \<open>
  C4. If the existence query of \<open>activity_exists\<close> fails, the failure leaves
  \<open>activity_exists\<close> as an exception and reaches the \<open>except\<close> clause of \<open>sync_activity\<close>;
  the only call made for the activity is that query, so nothing is written to the store;
  \<open>sync_activity\<close> returns False and the loop of \<open>main\<close> counts the activity as failed.
\<close>

theorem existence_query_failure_aborts:
  assumes "q = DatabasesQuery (activities_db_id c)
                 (NumberEquals ''Strava ID'' (dict_get_none a ''id''))"
    and "env tr q = Inl e"
  shows "activity_exists c env tr (dict_get_none a ''id'') = (Inl e, tr @ [q]) \<and>
         sync_activity_try c env tr a = (Inl e, tr @ [q]) \<and>
         sync_activity c env tr a = (False, tr @ [q]) \<and>
         sync_loop c env [a] \<lparr>success_count = s, failure_count = f, calls = tr\<rparr> =
           \<lparr>success_count = s, failure_count = f + 1, calls = tr @ [q]\<rparr>"
proof -
  have 1: "activity_exists c env tr (dict_get_none a ''id'') = (Inl e, tr @ [q])"
    using assms activity_exists_failure by simp
  then have 2: "sync_activity_try c env tr a = (Inl e, tr @ [q])"
    by (simp add: sync_activity_try_def)
  then have 3: "sync_activity c env tr a = (False, tr @ [q])"
    by (simp add: sync_activity_def)
  then have "sync_loop c env [a] \<lparr>success_count = s, failure_count = f, calls = tr\<rparr> =
           \<lparr>success_count = s, failure_count = f + 1, calls = tr @ [q]\<rparr>"
    by simp
  with 1 2 3 show ?thesis by blast
qed

text \<open>A run against the store that cannot be reached.\<close>

theorem existence_query_failure_aborts_witness:
  "failing_store [] (DatabasesQuery ''activities-db'' (NumberEquals ''Strava ID'' (PNum 1))) =
     Inl RequestError \<and>
   activity_exists example_client failing_store [] (PNum 1) =
     (Inl RequestError,
      [DatabasesQuery ''activities-db'' (NumberEquals ''Strava ID'' (PNum 1))]) \<and>
   sync_activity example_client failing_store [] run_without_speed =
     (False, [DatabasesQuery ''activities-db'' (NumberEquals ''Strava ID'' (PNum 1))])"
proof -
  let ?q = "DatabasesQuery ''activities-db'' (NumberEquals ''Strava ID'' (PNum 1))"
  have q: "?q = DatabasesQuery (activities_db_id example_client)
                  (NumberEquals ''Strava ID'' (dict_get_none run_without_speed ''id''))"
    by (simp add: example_client_def run_without_speed_def dict_get_none_def dict_get_def)
  have f: "failing_store [] ?q = Inl RequestError"
    by (simp add: failing_store_def)
  have i: "dict_get_none run_without_speed ''id'' = PNum 1"
    by (simp add: run_without_speed_def dict_get_none_def dict_get_def)
  from existence_query_failure_aborts [where env = failing_store and tr = "[]", OF q f] f
  show ?thesis
    by (simp add: i)
qed

section \<open>Skipping duplicates and unsupported categories\<close>

text \<open>
  C8 (as amended). Provided the existence query does not fail: for every activity that
  the query reports as already present, and for every activity whose category is Other,
  \<open>sync_activity\<close> returns True and the existence query is the only call it makes, so
  no create call is issued.
\<close>

theorem skip_duplicate_or_unsupported:
  assumes "activity_exists c env tr (dict_get_none a ''id'') = (Inr exists, tr1)"
    and "exists \<or> get_sport_type a = Inr ''Other''"
  shows "sync_activity c env tr a =
           (True, tr @ [DatabasesQuery (activities_db_id c)
                          (NumberEquals ''Strava ID'' (dict_get_none a ''id''))])"
proof -
  have "tr1 = tr @ [DatabasesQuery (activities_db_id c)
                          (NumberEquals ''Strava ID'' (dict_get_none a ''id''))]"
    using snd_activity_exists [of c env tr "dict_get_none a ''id''"] assms(1) by simp
  moreover have "sync_activity_try c env tr a = (Inr True, tr1)"
    using assms by (auto simp: sync_activity_try_def)
  ultimately show ?thesis by (simp add: sync_activity_def)
qed

text \<open>A run that is already recorded, and a yoga session that is not.\<close>

theorem skip_duplicate_or_unsupported_witness:
  "activity_exists example_client duplicate_store [] (dict_get_none run_without_speed ''id'') =
     (Inr True, [DatabasesQuery ''activities-db'' (NumberEquals ''Strava ID'' (PNum 1))]) \<and>
   sync_activity example_client duplicate_store [] run_without_speed =
     (True, [DatabasesQuery ''activities-db'' (NumberEquals ''Strava ID'' (PNum 1))]) \<and>
   activity_exists example_client ok_store [] (dict_get_none yoga_session ''id'') =
     (Inr False, [DatabasesQuery ''activities-db'' (NumberEquals ''Strava ID'' (PNum 8))]) \<and>
   get_sport_type yoga_session = Inr ''Other'' \<and>
   sync_activity example_client ok_store [] yoga_session =
     (True, [DatabasesQuery ''activities-db'' (NumberEquals ''Strava ID'' (PNum 8))])"
proof -
  have d: "activity_exists example_client duplicate_store []
             (dict_get_none run_without_speed ''id'') =
           (Inr True, [DatabasesQuery ''activities-db'' (NumberEquals ''Strava ID'' (PNum 1))])"
    by (simp add: client_defs example_client_def run_without_speed_def dict_get_none_def
        dict_get_def)
  have y: "activity_exists example_client ok_store [] (dict_get_none yoga_session ''id'') =
           (Inr False, [DatabasesQuery ''activities-db'' (NumberEquals ''Strava ID'' (PNum 8))])"
    by (simp add: client_defs example_client_def ok_store_def yoga_session_def dict_get_none_def
        dict_get_def)
  have o: "get_sport_type yoga_session = Inr ''Other''"
    by (simp add: get_sport_type_def SPORT_TYPE_MAP_def yoga_session_def dict_get_def)
  have "sync_activity example_client duplicate_store [] run_without_speed =
     (True, [DatabasesQuery ''activities-db'' (NumberEquals ''Strava ID'' (PNum 1))])"
    using skip_duplicate_or_unsupported [OF d] 
    by (simp add: example_client_def run_without_speed_def dict_get_none_def dict_get_def)
  moreover have "sync_activity example_client ok_store [] yoga_session =
     (True, [DatabasesQuery ''activities-db'' (NumberEquals ''Strava ID'' (PNum 8))])"
    using skip_duplicate_or_unsupported [OF y] o
    by (simp add: example_client_def yoga_session_def dict_get_none_def dict_get_def)
  ultimately show ?thesis using d y o by blast
qed

text \<open>The category of the yoga session is Other, but against a store whose existence
  query fails \<open>sync_activity\<close> returns False.\<close>

theorem unsupported_with_failing_query_counterexample:
  "get_sport_type yoga_session = Inr ''Other'' \<and>
   sync_activity example_client failing_store [] yoga_session =
     (False, [DatabasesQuery ''activities-db'' (NumberEquals ''Strava ID'' (PNum 8))])"
  by (simp add: sync_defs client_defs example_client_def failing_store_def yoga_session_def
      dict_get_def dict_get_none_def)

section \<open>Linking and status update\<close>

text \<open>
  C6. For an activity that was created and for which a planned record was matched,
  \<open>sync_activity\<close> returns True whatever the link and the status update do. The calls
  after the match are the link, followed by the status update exactly when the link
  call succeeded. Both \<open>link_to_planned_activity\<close> and \<open>update_planned_status\<close> turn a
  failing call into the value False.
\<close>

theorem link_and_status_failures_are_soft:
  assumes "activity_exists c env tr (dict_get_none a ''id'') = (Inr False, tr1)"
    and "get_sport_type a = Inr st" and "st \<in> {''Run'', ''Ride'', ''Swim''}"
    and "create_activity c env tr1 a st = (aid, tr2)" and "truthy aid"
    and "find_planned_activity c env tr2 (dict_get_none a ''start_date'') st = (pid, tr3)"
    and "truthy pid"
  shows "sync_activity c env tr a =
           (True, tr3 @ link_call aid pid #
                    (case env tr3 (link_call aid pid) of
                       Inl e \<Rightarrow> []
                     | Inr r \<Rightarrow> [status_call pid ''Done''])) \<and>
         link_to_planned_activity c env tr3 aid pid =
           (case env tr3 (link_call aid pid) of Inl e \<Rightarrow> False | Inr r \<Rightarrow> True,
            tr3 @ [link_call aid pid]) \<and>
         update_planned_status c env (tr3 @ [link_call aid pid]) pid ''Done'' =
           (case env (tr3 @ [link_call aid pid]) (status_call pid ''Done'') of
              Inl e \<Rightarrow> False | Inr r \<Rightarrow> True,
            tr3 @ [link_call aid pid, status_call pid ''Done''])"
proof -
  have "after_create c env tr2 a st aid = (Inr True, link_and_update c env tr3 aid pid)"
    using assms(6,7) by (simp add: after_create_def)
  moreover have "sync_activity_try c env tr a = after_create c env tr2 a st aid"
    using assms(1-5) by (auto simp: sync_activity_try_def)
  ultimately have "sync_activity c env tr a = (True, link_and_update c env tr3 aid pid)"
    by (simp add: sync_activity_def)
  then show ?thesis
    by (simp add: link_and_update_eq link_to_planned_activity_eq update_planned_status_eq)
qed

text \<open>The same run against a store whose updates fail (the link is tried, the status
  is not, the result is True) and against one whose updates succeed.\<close>

theorem link_and_status_failures_are_soft_witness:
  "sync_activity example_client update_failing_store [] run_without_speed =
     (True, [DatabasesQuery ''activities-db'' (NumberEquals ''Strava ID'' (PNum 1)),
             PagesCreate ''activities-db'' run_without_speed_record,
             DatabasesQuery ''planned-db''
               (And [DateEquals ''Date'' (PStr ''2024-05-01''), SelectEquals ''Type'' ''Run'']),
             PagesUpdate (PStr ''page-1'') [(''Planned Activity'', Relation (PStr ''plan-1''))]]) \<and>
   sync_activity example_client planned_store [] run_without_speed =
     (True, [DatabasesQuery ''activities-db'' (NumberEquals ''Strava ID'' (PNum 1)),
             PagesCreate ''activities-db'' run_without_speed_record,
             DatabasesQuery ''planned-db''
               (And [DateEquals ''Date'' (PStr ''2024-05-01''), SelectEquals ''Type'' ''Run'']),
             PagesUpdate (PStr ''page-1'') [(''Planned Activity'', Relation (PStr ''plan-1''))],
             PagesUpdate (PStr ''plan-1'') [(''Status'', Status ''Done'')]])"
proof -
  let ?q = "DatabasesQuery ''activities-db'' (NumberEquals ''Strava ID'' (PNum 1))"
  let ?cr = "PagesCreate ''activities-db'' run_without_speed_record"
  let ?pq = "DatabasesQuery ''planned-db''
               (And [DateEquals ''Date'' (PStr ''2024-05-01''), SelectEquals ''Type'' ''Run''])"
  have st: "get_sport_type run_without_speed = Inr ''Run''"
    by (simp add: get_sport_type_def SPORT_TYPE_MAP_def run_without_speed_def dict_get_def)
  have mem: "''Run'' \<in> {''Run'', ''Ride'', ''Swim''}" by simp
  have t1: "truthy (PStr ''page-1'')" and t2: "truthy (PStr ''plan-1'')" by simp_all
  have e1: "activity_exists example_client update_failing_store []
              (dict_get_none run_without_speed ''id'') = (Inr False, [?q])"
    by (simp add: client_defs example_client_def run_without_speed_def dict_get_none_def
        dict_get_def)
  have c1: "create_activity example_client update_failing_store [?q] run_without_speed ''Run'' =
              (PStr ''page-1'', [?q, ?cr])"
    by (simp add: client_defs build_defs example_client_def run_without_speed_def
        run_without_speed_record_def)
  have f1: "find_planned_activity example_client update_failing_store [?q, ?cr]
              (dict_get_none run_without_speed ''start_date'') ''Run'' =
              (PStr ''plan-1'', [?q, ?cr, ?pq])"
    by (simp add: client_defs example_client_def run_without_speed_def dict_get_none_def
        dict_get_def)
  have e2: "activity_exists example_client planned_store []
              (dict_get_none run_without_speed ''id'') = (Inr False, [?q])"
    by (simp add: client_defs example_client_def run_without_speed_def dict_get_none_def
        dict_get_def)
  have c2: "create_activity example_client planned_store [?q] run_without_speed ''Run'' =
              (PStr ''page-1'', [?q, ?cr])"
    by (simp add: client_defs build_defs example_client_def run_without_speed_def
        run_without_speed_record_def)
  have f2: "find_planned_activity example_client planned_store [?q, ?cr]
              (dict_get_none run_without_speed ''start_date'') ''Run'' =
              (PStr ''plan-1'', [?q, ?cr, ?pq])"
    by (simp add: client_defs example_client_def run_without_speed_def dict_get_none_def
        dict_get_def)
  from link_and_status_failures_are_soft [OF e1 st mem c1 t1 f1 t2]
  have a: "sync_activity example_client update_failing_store [] run_without_speed =
     (True, [?q, ?cr, ?pq,
             PagesUpdate (PStr ''page-1'') [(''Planned Activity'', Relation (PStr ''plan-1''))]])"
    by (simp add: link_call_def status_call_def)
  from link_and_status_failures_are_soft [OF e2 st mem c2 t1 f2 t2]
  have b: "sync_activity example_client planned_store [] run_without_speed =
     (True, [?q, ?cr, ?pq,
             PagesUpdate (PStr ''page-1'') [(''Planned Activity'', Relation (PStr ''plan-1''))],
             PagesUpdate (PStr ''plan-1'') [(''Status'', Status ''Done'')]])"
    by (simp add: link_call_def status_call_def)
  from a b show ?thesis by blast
qed

section \<open>Planned-activity matching\<close>

text \<open>
  C7. For every date string and category, \<open>find_planned_activity\<close> returns the identifier
  of the first record of the query result when the result is not empty, returns None
  when the result is empty or absent, and returns None when the query fails; no
  exception raised in its body leaves it.
\<close>

theorem find_planned_activity_first_match:
  assumes "q = DatabasesQuery (planned_db_id c)
                 (And [DateEquals ''Date'' (PStr (takeWhile (\<lambda>c. c \<noteq> CHR ''T'') d)),
                       SelectEquals ''Type'' st])"
  shows "(env tr q = Inr resp \<and> resp ''results'' = Some (PList (PDict r # rest)) \<and>
            map_of r ''id'' = Some pid \<longrightarrow>
            find_planned_activity c env tr (PStr d) st = (pid, tr @ [q])) \<and>
         (env tr q = Inr resp \<and> dict_get resp ''results'' (PList []) = PList [] \<longrightarrow>
            find_planned_activity c env tr (PStr d) st = (PNone, tr @ [q])) \<and>
         (env tr q = Inl e \<longrightarrow>
            find_planned_activity c env tr (PStr d) st = (PNone, tr @ [q])) \<and>
         (fst (find_planned_activity_try c env tr date st) = Inl e \<longrightarrow>
            fst (find_planned_activity c env tr date st) = PNone)"
proof -
  have t: "find_planned_activity_try c env tr (PStr d) st =
             (case env tr q of
                Inl e \<Rightarrow> (Inl e, tr @ [q])
              | Inr response \<Rightarrow>
                  (let results = dict_get response ''results'' (PList [])
                   in if truthy results
                      then (case py_index0 results of
                              Inl e \<Rightarrow> (Inl e, tr @ [q])
                            | Inr first \<Rightarrow>
                                (case py_getitem_id first of
                                   Inl e \<Rightarrow> (Inl e, tr @ [q])
                                 | Inr planned_id \<Rightarrow> (Inr planned_id, tr @ [q])))
                      else (Inr PNone, tr @ [q])))"
    unfolding assms
    by (simp add: find_planned_activity_try_def date_only_of_str api_call_def split: sum.splits)
  have 1: "find_planned_activity c env tr (PStr d) st = (pid, tr @ [q])"
    if "env tr q = Inr resp" "resp ''results'' = Some (PList (PDict r # rest))"
      "map_of r ''id'' = Some pid"
    using that by (simp add: find_planned_activity_def t dict_get_def)
  have 2: "find_planned_activity c env tr (PStr d) st = (PNone, tr @ [q])"
    if "env tr q = Inr resp" "dict_get resp ''results'' (PList []) = PList []"
    using that by (simp add: find_planned_activity_def t)
  have 3: "find_planned_activity c env tr (PStr d) st = (PNone, tr @ [q])"
    if "env tr q = Inl e"
    using that by (simp add: find_planned_activity_def t)
  have 4: "fst (find_planned_activity c env tr date st) = PNone"
    if "fst (find_planned_activity_try c env tr date st) = Inl e"
    using that by (auto simp: find_planned_activity_def split: prod.splits sum.splits)
  from 1 2 3 4 show ?thesis by blast
qed

text \<open>Two planned records: the first is chosen. None planned, and a failing store: no
  match.\<close>

theorem find_planned_activity_first_match_witness:
  "find_planned_activity example_client planned_store [] (PStr ''2024-05-01T07:00:00Z'') ''Run'' =
     (PStr ''plan-1'',
      [DatabasesQuery ''planned-db''
         (And [DateEquals ''Date'' (PStr ''2024-05-01''), SelectEquals ''Type'' ''Run''])]) \<and>
   find_planned_activity example_client ok_store [] (PStr ''2024-05-01T07:00:00Z'') ''Run'' =
     (PNone,
      [DatabasesQuery ''planned-db''
         (And [DateEquals ''Date'' (PStr ''2024-05-01''), SelectEquals ''Type'' ''Run''])]) \<and>
   find_planned_activity example_client failing_store [] (PStr ''2024-05-01T07:00:00Z'') ''Run'' =
     (PNone,
      [DatabasesQuery ''planned-db''
         (And [DateEquals ''Date'' (PStr ''2024-05-01''), SelectEquals ''Type'' ''Run''])])"
proof -
  let ?q = "DatabasesQuery ''planned-db''
         (And [DateEquals ''Date'' (PStr ''2024-05-01''), SelectEquals ''Type'' ''Run''])"
  have q: "?q = DatabasesQuery (planned_db_id example_client)
                 (And [DateEquals ''Date''
                         (PStr (takeWhile (\<lambda>c. c \<noteq> CHR ''T'') ''2024-05-01T07:00:00Z'')),
                       SelectEquals ''Type'' ''Run''])"
    by (simp add: example_client_def)
  let ?resp = "map_of [(''results'', PList [PDict [(''id'', PStr ''plan-1'')],
                                             PDict [(''id'', PStr ''plan-2'')]])]"
  have p: "planned_store [] ?q = Inr ?resp \<and>
           ?resp ''results'' = Some (PList (PDict [(''id'', PStr ''plan-1'')] #
                                             [PDict [(''id'', PStr ''plan-2'')]])) \<and>
           map_of [(''id'', PStr ''plan-1'')] ''id'' = Some (PStr ''plan-1'')"
    by simp
  let ?none = "map_of [(''id'', PStr ''page-1''), (''results'', PList [])]"
  have z: "ok_store [] ?q = Inr ?none \<and> dict_get ?none ''results'' (PList []) = PList []"
    by (simp add: ok_store_def dict_get_def)
  have f: "failing_store [] ?q = Inl RequestError"
    by (simp add: failing_store_def)
  from find_planned_activity_first_match [where env = planned_store and tr = "[]" and resp = ?resp, OF q] p
  have 1: "find_planned_activity example_client planned_store []
             (PStr ''2024-05-01T07:00:00Z'') ''Run'' = (PStr ''plan-1'', [] @ [?q])"
    by blast
  from find_planned_activity_first_match [where env = ok_store and tr = "[]" and resp = ?none, OF q] z
  have 2: "find_planned_activity example_client ok_store []
             (PStr ''2024-05-01T07:00:00Z'') ''Run'' = (PNone, [] @ [?q])"
    by blast
  from find_planned_activity_first_match [where env = failing_store and tr = "[]" and e = RequestError, OF q] f
  have 3: "find_planned_activity example_client failing_store []
             (PStr ''2024-05-01T07:00:00Z'') ''Run'' = (PNone, [] @ [?q])"
    by blast
  from 1 2 3 show ?thesis by simp
qed

section \<open>The batch loop\<close>

text \<open>
  C5. In a batch, every activity is processed whatever happened to the ones before: each
  activity has a result and its existence query is among the calls made. An activity
  whose creation yields no identifier, or whose processing raises, gets the result
  False. When exactly one result of the batch is False, the final tally is one failure
  and \<open>N - 1\<close> successes.
\<close>

theorem batch_continues_after_failure:
  assumes "final = sync_loop c env acts \<lparr>success_count = 0, failure_count = 0, calls = tr\<rparr>"
    and "rs = sync_results c env tr acts"
  shows "length rs = length acts \<and>
         (\<forall>a \<in> set acts.
            DatabasesQuery (activities_db_id c)
              (NumberEquals ''Strava ID'' (dict_get_none a ''id'')) \<in> set (calls final)) \<and>
         (length (filter Not rs) = 1 \<longrightarrow>
            failure_count final = 1 \<and> success_count final = length acts - 1) \<and>
         (activity_exists c env t (dict_get_none x ''id'') = (Inr False, t1) \<and>
          get_sport_type x = Inr st \<and> st \<in> {''Run'', ''Ride'', ''Swim''} \<and>
          create_activity c env t1 x st = (aid, t2) \<and> \<not> truthy aid \<longrightarrow>
            sync_activity c env t x = (False, t2)) \<and>
         (fst (sync_activity_try c env t x) = Inl e \<longrightarrow> fst (sync_activity c env t x) = False)"
proof (intro conjI)
  show "length rs = length acts"
    by (simp add: assms(2) length_sync_results)
  show "\<forall>a \<in> set acts.
            DatabasesQuery (activities_db_id c)
              (NumberEquals ''Strava ID'' (dict_get_none a ''id'')) \<in> set (calls final)"
    using calls_sync_loop [of "\<lparr>success_count = 0, failure_count = 0, calls = tr\<rparr>" c acts env]
    unfolding assms(1) by blast
  show "length (filter Not rs) = 1 \<longrightarrow>
            failure_count final = 1 \<and> success_count final = length acts - 1"
  proof
    assume one: "length (filter Not rs) = 1"
    have f: "failure_count final = length (filter Not rs)"
      by (simp add: assms failure_count_sync_loop)
    have s: "success_count final = length (filter (\<lambda>ok. ok) rs)"
      by (simp add: assms success_count_sync_loop)
    have "length (filter (\<lambda>ok. ok) rs) + length (filter Not rs) = length acts"
      using length_filter_partition [of rs] by (simp add: assms(2) length_sync_results)
    with one f s show "failure_count final = 1 \<and> success_count final = length acts - 1"
      by simp
  qed
  show "activity_exists c env t (dict_get_none x ''id'') = (Inr False, t1) \<and>
          get_sport_type x = Inr st \<and> st \<in> {''Run'', ''Ride'', ''Swim''} \<and>
          create_activity c env t1 x st = (aid, t2) \<and> \<not> truthy aid \<longrightarrow>
            sync_activity c env t x = (False, t2)"
    by (auto simp: sync_activity_def sync_activity_try_def)
  show "fst (sync_activity_try c env t x) = Inl e \<longrightarrow> fst (sync_activity c env t x) = False"
    by (auto simp: sync_activity_def split: prod.splits sum.splits)
qed

text \<open>Three activities, the creation of the second one refused.\<close>

theorem batch_continues_after_failure_witness:
  "sync_results example_client flaky_store [] example_batch = [True, False, True] \<and>
   length (filter Not [True, False, True]) = 1 \<and>
   failure_count (sync_loop example_client flaky_store example_batch
                    \<lparr>success_count = 0, failure_count = 0, calls = []\<rparr>) = 1 \<and>
   success_count (sync_loop example_client flaky_store example_batch
                    \<lparr>success_count = 0, failure_count = 0, calls = []\<rparr>) = 2"
proof -
  have r: "[True, False, True] = sync_results example_client flaky_store [] example_batch"
    by (simp add: example_batch_results)
  have one: "length (filter Not [True, False, True]) = 1" by simp
  from batch_continues_after_failure [OF refl r] one
  have "failure_count (sync_loop example_client flaky_store example_batch
                    \<lparr>success_count = 0, failure_count = 0, calls = []\<rparr>) = 1 \<and>
        success_count (sync_loop example_client flaky_store example_batch
                    \<lparr>success_count = 0, failure_count = 0, calls = []\<rparr>) =
          length example_batch - 1"
    by blast
  then show ?thesis using r one by (simp add: example_batch_def)
qed

text \<open>
  C10. The two counters partition the batch: \<open>sync_activity\<close> returns a boolean for every
  activity, False when its body raises; each activity increments exactly one
  counter; and at the end of the loop the counters add up to the number of activities.
\<close>

theorem counters_partition_batch:
  "success_count (sync_loop c env acts st) + failure_count (sync_loop c env acts st) =
     success_count st + failure_count st + length acts \<and>
   (success_count (sync_loop c env [a] st) = success_count st + 1 \<and>
    failure_count (sync_loop c env [a] st) = failure_count st \<or>
    success_count (sync_loop c env [a] st) = success_count st \<and>
    failure_count (sync_loop c env [a] st) = failure_count st + 1) \<and>
   (main_sync c env acts = Some final \<longrightarrow>
      success_count final + failure_count final = length acts) \<and>
   sync_activity c env tr a =
     (case fst (sync_activity_try c env tr a) of Inl e \<Rightarrow> False | Inr ok \<Rightarrow> ok,
      snd (sync_activity_try c env tr a))"
proof (intro conjI)
  have sum: "success_count (sync_loop c env bs s0) + failure_count (sync_loop c env bs s0) =
     success_count s0 + failure_count s0 + length bs" for bs s0
    using length_filter_partition [of "sync_results c env (calls s0) bs"]
    by (simp add: success_count_sync_loop failure_count_sync_loop length_sync_results)
  show "success_count (sync_loop c env acts st) + failure_count (sync_loop c env acts st) =
     success_count st + failure_count st + length acts"
    by (rule sum)
  show "success_count (sync_loop c env [a] st) = success_count st + 1 \<and>
    failure_count (sync_loop c env [a] st) = failure_count st \<or>
    success_count (sync_loop c env [a] st) = success_count st \<and>
    failure_count (sync_loop c env [a] st) = failure_count st + 1"
    by (cases "sync_activity c env (calls st) a") simp
  show "main_sync c env acts = Some final \<longrightarrow>
      success_count final + failure_count final = length acts"
    using sum [of acts "\<lparr>success_count = 0, failure_count = 0, calls = []\<rparr>"]
    by (auto simp: main_sync_def split: if_splits)
  show "sync_activity c env tr a =
     (case fst (sync_activity_try c env tr a) of Inl e \<Rightarrow> False | Inr ok \<Rightarrow> ok,
      snd (sync_activity_try c env tr a))"
    by (simp add: sync_activity_def split: prod.splits sum.splits)
qed

text \<open>The same batch: two successes and one failure for three activities.\<close>

theorem counters_partition_batch_witness:
  "main_sync example_client flaky_store example_batch =
     Some (sync_loop example_client flaky_store example_batch
             \<lparr>success_count = 0, failure_count = 0, calls = []\<rparr>) \<and>
   success_count (sync_loop example_client flaky_store example_batch
                    \<lparr>success_count = 0, failure_count = 0, calls = []\<rparr>) = 2 \<and>
   failure_count (sync_loop example_client flaky_store example_batch
                    \<lparr>success_count = 0, failure_count = 0, calls = []\<rparr>) = 1 \<and>
   length example_batch = 2 + 1"
proof -
  let ?final = "sync_loop example_client flaky_store example_batch
             \<lparr>success_count = 0, failure_count = 0, calls = []\<rparr>"
  have m: "main_sync example_client flaky_store example_batch = Some ?final"
    by (simp add: main_sync_def example_batch_def)
  from counters_partition_batch [of example_client flaky_store example_batch _ _ ?final] m
  have "success_count ?final + failure_count ?final = length example_batch" by blast
  then have "length example_batch = 2 + 1"
    using example_batch_counts [of "[]"] by simp
  with m example_batch_counts [of "[]"] show ?thesis by blast
qed

end
